theory Spec2Isabelle
  imports Main
begin

section \<open>Common conventions\<close>

text \<open>
  The repository holds the Go services of one booking saga: the ledger
  (\<^verbatim>\<open>account/app/main.go\<close>), and the booking orchestrator and the reservation pool
  (the book and events services, both in \<^verbatim>\<open>orders/app/main.go\<close>). Each service
  keeps its data in SQL tables and talks to the others over HTTP.

  \<^item> A table is the list of its rows, in insertion order. A statement is modelled by
    what it does to the rows: \<^verbatim>\<open>UPDATE ... WHERE\<close> rewrites every matching row,
    \<^verbatim>\<open>DELETE ... WHERE\<close> drops every matching row, \<^verbatim>\<open>QueryRow\<close> scans the first
    matching row and fails with \<open>ErrNoRows\<close> when there is none. The connection to
    the database is taken to work: a statement fails only where the rows make it fail.
    The reads whose failure is modelled, each by a flag, are those after which the code
    goes on with a default value: the balance read of the ledger and the count read of
    the reservation pool.
  \<^item> A Go function returning \<^verbatim>\<open>error\<close> returns \<open>err option\<close> here (\<open>None\<close> is
    \<^verbatim>\<open>nil\<close>), next to the new state.
  \<^item> An HTTP handler returns the status code it writes, the callbacks or requests it
    sends, and the new state. Header values and JSON bodies reach a handler already
    parsed: \<open>None\<close> stands for a header that \<^verbatim>\<open>strconv.Atoi\<close> rejects, or for a body
    that \<^verbatim>\<open>json.Decoder.Decode\<close> rejects.
  \<^item> The handlers of the ledger and of the orchestrator are stated for one request
    served at a time. For the reservation pool the parts of a handler that other
    requests can come between are steps of their own. The callback that a remote
    service sends is a request of its own to the orchestrator's callback handler; what
    the orchestrator's outgoing call itself returns is the remote service's answer.
  \<^item> Go's \<^verbatim>\<open>int\<close> is modelled by \<open>int\<close>; the amounts of the saga are far from the
    64-bit bounds.
\<close>

datatype err =
    ErrNoRows
  | ErrStorage
  | ErrConstraint
  | ErrTransport
  | ErrMsg string

section \<open>Ledger (account/app/main.go)\<close>

text \<open>A row of table \<^verbatim>\<open>account\<close>: status 0 is Pending, status 1 is Committed.\<close>

record entry =
  user_id :: int
  request_id :: string
  delta :: int
  status :: int

type_synonym account = "entry list"

record withdrawalRequestModel =
  wr_BookID :: int
  wr_WithDrawSum :: int

record withDrawalResponseModel =
  wd_BookID :: int
  wd_UserID :: int
  wd_Price :: int
  wd_Status :: bool

text \<open>
  \<^verbatim>\<open>getBalanceTpl\<close>:
  \<^verbatim>\<open>SELECT COALESCE(SUM(delta),0) FROM account WHERE user_id=$1 AND status=1\<close>.
\<close>

definition getBalanceTpl :: "int \<Rightarrow> account \<Rightarrow> int" where
  "getBalanceTpl uid tbl =
     sum_list (map delta (filter (\<lambda>e. user_id e = uid \<and> status e = 1) tbl))"

text \<open>
  \<^verbatim>\<open>getbalance\<close>: \<^verbatim>\<open>balance := 0\<close>, then the query scans into it. The flag \<open>fails\<close>
  is the storage failing on this read: the scan does not happen, the balance stays 0
  and the error is returned beside it.
\<close>

definition getbalance :: "bool \<Rightarrow> int \<Rightarrow> account \<Rightarrow> int \<times> err option" where
  "getbalance fails uid tbl =
     (if fails then (0, Some ErrStorage) else (getBalanceTpl uid tbl, None))"

text \<open>
  \<^verbatim>\<open>prepareOperationTpl\<close>:
  \<^verbatim>\<open>INSERT INTO account (user_id, request_id, delta, status) VALUES ($1, $2, 0, 0)\<close>.
  The table's declaration is not part of the sources; \<open>uniq\<close> says whether it declares
  the pair (user\_id, request\_id) unique, in which case the insert of a pair that is
  already there is rejected.
\<close>

definition prepareOperationTpl :: "bool \<Rightarrow> int \<Rightarrow> string \<Rightarrow> account \<Rightarrow> err option \<times> account" where
  "prepareOperationTpl uniq uid rid tbl =
     (if uniq \<and> (\<exists>e \<in> set tbl. user_id e = uid \<and> request_id e = rid)
      then (Some ErrConstraint, tbl)
      else (None, tbl @ [\<lparr>user_id = uid, request_id = rid, delta = 0, status = 0\<rparr>]))"

text \<open>
  \<^verbatim>\<open>updateBalanceTpl\<close>:
  \<^verbatim>\<open>UPDATE account SET delta=$3, status=1 WHERE user_id=$1 AND request_id=$2 AND status=0\<close>;
  the result is the number of rows affected and the new table.
\<close>

definition pending :: "int \<Rightarrow> string \<Rightarrow> entry \<Rightarrow> bool" where
  "pending uid rid e \<longleftrightarrow> user_id e = uid \<and> request_id e = rid \<and> status e = 0"

definition updateBalanceTpl :: "int \<Rightarrow> string \<Rightarrow> int \<Rightarrow> account \<Rightarrow> nat \<times> account" where
  "updateBalanceTpl uid rid d tbl =
     (length (filter (pending uid rid) tbl),
      map (\<lambda>e. if pending uid rid e then e\<lparr>delta := d, status := 1\<rparr> else e) tbl)"

definition updatebalance :: "int \<Rightarrow> string \<Rightarrow> int \<Rightarrow> account \<Rightarrow> err option \<times> account" where
  "updatebalance uid rid d tbl =
     (let (n, tbl') = updateBalanceTpl uid rid d tbl
      in if n = 0 then (Some (ErrMsg ''balance did not change''), tbl')
         else (None, tbl'))"

text \<open>
  \<^verbatim>\<open>newReq\<close> passes the two header values to the insert as they are; \<open>uid = None\<close> is
  an \<^verbatim>\<open>X-User-Id\<close> that the integer column rejects.
\<close>

definition newReq :: "bool \<Rightarrow> int option \<Rightarrow> string \<Rightarrow> account \<Rightarrow> nat \<times> account" where
  "newReq uniq uid rid tbl =
     (case uid of
        None \<Rightarrow> (500, tbl)
      | Some u \<Rightarrow>
          (case prepareOperationTpl uniq u rid tbl of
             (Some e, tbl') \<Rightarrow> (500, tbl')
           | (None, tbl') \<Rightarrow> (200, tbl')))"

text \<open>\<^verbatim>\<open>deposit\<close>: the handler behind the ledger's apply operation.\<close>

definition deposit :: "string \<Rightarrow> int option \<Rightarrow> int option \<Rightarrow> account \<Rightarrow> nat \<times> account" where
  "deposit rid uid body tbl =
     (if rid = [] then (400, tbl)
      else case uid of
        None \<Rightarrow> (500, tbl)
      | Some u \<Rightarrow>
          (case body of
             None \<Rightarrow> (400, tbl)
           | Some d \<Rightarrow>
               (case updatebalance u rid d tbl of
                  (Some e, tbl') \<Rightarrow> (500, tbl')
                | (None, tbl') \<Rightarrow> (200, tbl'))))"

text \<open>
  \<^verbatim>\<open>withdrawal\<close>. A failed balance read writes status 500 and logs, but does not
  return: the handler goes on with \<open>b = 0\<close>. The result holds the status code (the
  first \<^verbatim>\<open>WriteHeader\<close> wins), the callbacks sent to the orchestrator and the table.
\<close>

definition withdrawal ::
  "bool \<Rightarrow> string \<Rightarrow> int option \<Rightarrow> withdrawalRequestModel option \<Rightarrow> account
     \<Rightarrow> nat \<times> withDrawalResponseModel list \<times> account" where
  "withdrawal fails rid uidh body tbl =
     (case uidh of
        None \<Rightarrow> (500, [], tbl)
      | Some uid \<Rightarrow>
          (case body of
             None \<Rightarrow> (400, [], tbl)
           | Some wr \<Rightarrow>
               (let (b, e) = getbalance fails uid tbl;
                    wc = \<lparr>wd_BookID = wr_BookID wr, wd_UserID = uid,
                          wd_Price = wr_WithDrawSum wr, wd_Status = False\<rparr>
                in if wr_WithDrawSum wr > b then (500, [wc], tbl)
                   else (case updatebalance uid rid (- wr_WithDrawSum wr) tbl of
                           (Some e', tbl') \<Rightarrow> (500, [wc], tbl')
                         | (None, tbl') \<Rightarrow>
                             (if e = None then 200 else 500,
                              [wc\<lparr>wd_Status := True\<rparr>], tbl')))))"

text \<open>The entries of one (user, token) pair, and those of them that are Committed.\<close>

definition entries_of :: "int \<Rightarrow> string \<Rightarrow> account \<Rightarrow> entry list" where
  "entries_of uid rid tbl = filter (\<lambda>e. user_id e = uid \<and> request_id e = rid) tbl"


definition pending_of :: "int \<Rightarrow> string \<Rightarrow> account \<Rightarrow> entry list" where
  "pending_of uid rid tbl = filter (\<lambda>e. status e = 0) (entries_of uid rid tbl)"

section \<open>Reservation pool (events service in orders/app/main.go)\<close>

text \<open>
  Table \<^verbatim>\<open>events\<close> holds the catalogue, table \<^verbatim>\<open>slots\<close> one row per occupied
  slot. The service has functions of the same names as the orchestrator's
  (\<^verbatim>\<open>occupySlot\<close>, \<^verbatim>\<open>cancelSlot\<close>); here they carry the prefix \<open>events_\<close>.
\<close>

record eventModel =
  ev_ID :: int
  ev_Name :: string
  ev_Price :: int
  ev_TotalSlots :: int

record slot =
  event_id :: int
  book_id :: int

record pool =
  events :: "eventModel list"
  slots :: "slot list"

record occupyRequestModel =
  or_BookID :: int
  or_EventID :: int

record occupiedResponseModel =
  oc_BookID :: int
  oc_UserID :: int
  oc_Price :: int
  oc_Status :: bool

text \<open>
  \<^verbatim>\<open>getEvent\<close>, on \<^verbatim>\<open>getEventTpl\<close>:
  \<^verbatim>\<open>SELECT id, event_name, price, total_slots FROM events WHERE id=$1\<close>.
\<close>

definition getEvent :: "int \<Rightarrow> pool \<Rightarrow> err + eventModel" where
  "getEvent eid p =
     (case find (\<lambda>e. ev_ID e = eid) (events p) of
        None \<Rightarrow> Inl ErrNoRows
      | Some e \<Rightarrow> Inr e)"

text \<open>\<^verbatim>\<open>getTotalSlots\<close>: 0 when the event cannot be read.\<close>

definition getTotalSlots :: "int \<Rightarrow> pool \<Rightarrow> int" where
  "getTotalSlots eid p =
     (case getEvent eid p of Inl e \<Rightarrow> 0 | Inr e \<Rightarrow> ev_TotalSlots e)"

text \<open>
  \<^verbatim>\<open>occupiedSlotsTpl\<close>: \<^verbatim>\<open>SELECT COUNT(1) FROM slots WHERE event_id=$1\<close>.
\<close>

definition occupiedSlotsTpl :: "int \<Rightarrow> pool \<Rightarrow> int" where
  "occupiedSlotsTpl eid p = int (length (filter (\<lambda>s. event_id s = eid) (slots p)))"

text \<open>
  \<^verbatim>\<open>getOccupiedSlots\<close>: the count, or 0 when scanning the count fails (the flag
  \<open>fails\<close>): the function logs the error and returns 0.
\<close>

definition getOccupiedSlots :: "bool \<Rightarrow> int \<Rightarrow> pool \<Rightarrow> int" where
  "getOccupiedSlots fails eid p = (if fails then 0 else occupiedSlotsTpl eid p)"

text \<open>
  \<^verbatim>\<open>occupySlot\<close> of the events service, on \<^verbatim>\<open>occupySlotTpl\<close>:
  \<^verbatim>\<open>INSERT INTO slots (event_id, book_id) VALUES ($1, $2)\<close>.
\<close>

definition events_occupySlot :: "int \<Rightarrow> int \<Rightarrow> pool \<Rightarrow> err option \<times> pool" where
  "events_occupySlot eid oid p =
     (None, p\<lparr>slots := slots p @ [\<lparr>event_id = eid, book_id = oid\<rparr>]\<rparr>)"

text \<open>
  \<^verbatim>\<open>occupy\<close>: the handler of \<^verbatim>\<open>POST /events/occupy\<close>. It runs no transaction
  and takes no lock: it first reads the event, its capacity and its occupancy count,
  each by a statement of its own, and then decides on what it has read and inserts.
  The server runs a handler per request, so statements of other requests may fall
  between the reads and the insert. The model has the two parts apart:
  \<open>occupy_reads\<close> either answers at once (status code and callbacks) or leaves the
  handler's local variables; \<open>occupy_insert\<close> goes on from these variables on the
  tables as they are by then. Its result is the status code, the callbacks sent to the
  orchestrator and the new tables. The three reads are one part: no step of the model
  changes the catalogue, and the count is the last of them.
\<close>

record occupy_locals =
  lc_ro :: occupiedResponseModel
  lc_rq :: occupyRequestModel
  lc_total :: int
  lc_occupied :: int

definition occupy_reads ::
  "bool \<Rightarrow> int option \<Rightarrow> occupyRequestModel option \<Rightarrow> pool
     \<Rightarrow> (nat \<times> occupiedResponseModel list) + occupy_locals" where
  "occupy_reads cf uidh body p =
     (case uidh of
        None \<Rightarrow> Inl (401, [])
      | Some uid \<Rightarrow>
          (case body of
             None \<Rightarrow> Inl (400, [])
           | Some rq \<Rightarrow>
               (let ro = \<lparr>oc_BookID = or_BookID rq, oc_UserID = uid,
                          oc_Price = 0, oc_Status = False\<rparr>
                in case getEvent (or_EventID rq) p of
                     Inl e \<Rightarrow> Inl (500, [ro])
                   | Inr e \<Rightarrow>
                       Inr \<lparr>lc_ro = ro\<lparr>oc_Price := ev_Price e\<rparr>, lc_rq = rq,
                            lc_total = getTotalSlots (or_EventID rq) p,
                            lc_occupied = getOccupiedSlots cf (or_EventID rq) p\<rparr>)))"

definition occupy_insert ::
  "occupy_locals \<Rightarrow> pool \<Rightarrow> nat \<times> occupiedResponseModel list \<times> pool" where
  "occupy_insert l p =
     (if lc_total l > lc_occupied l
      then (case events_occupySlot (or_EventID (lc_rq l)) (or_BookID (lc_rq l)) p of
              (Some e', p') \<Rightarrow> (500, [lc_ro l], p')
            | (None, p') \<Rightarrow> (200, [(lc_ro l)\<lparr>oc_Status := True\<rparr>], p'))
      else (200, [lc_ro l], p))"

text \<open>The handler when no other request comes between its reads and its insert.\<close>

definition occupy ::
  "bool \<Rightarrow> int option \<Rightarrow> occupyRequestModel option \<Rightarrow> pool
     \<Rightarrow> nat \<times> occupiedResponseModel list \<times> pool" where
  "occupy cf uidh body p =
     (case occupy_reads cf uidh body p of
        Inl (c, cbs) \<Rightarrow> (c, cbs, p)
      | Inr l \<Rightarrow> occupy_insert l p)"

text \<open>
  \<^verbatim>\<open>cancelSlot\<close> of the events service: the handler of \<^verbatim>\<open>POST /events/cancel\<close>, on
  \<^verbatim>\<open>cancelSlotTpl\<close>: \<^verbatim>\<open>DELETE FROM slots WHERE book_id = $1\<close>. On success the
  handler writes nothing, which is status 200.
\<close>

definition events_cancelSlot :: "occupyRequestModel option \<Rightarrow> pool \<Rightarrow> nat \<times> pool" where
  "events_cancelSlot body p =
     (case body of
        None \<Rightarrow> (400, p)
      | Some rq \<Rightarrow> (200, p\<lparr>slots := filter (\<lambda>s. book_id s \<noteq> or_BookID rq) (slots p)\<rparr>))"










section \<open>Requests on the wire\<close>

text \<open>
  The orchestrator builds its requests with \<^verbatim>\<open>fmt.Sprintf\<close> and \<^verbatim>\<open>strconv.Itoa\<close>.
  \<open>Sprintf\<close> covers the verb \<^verbatim>\<open>%d\<close>, the only one in the templates of this program:
  the verbs take the arguments in order, a verb without an argument prints
  \<^verbatim>\<open>%!d(MISSING)\<close>, and arguments that no verb takes are appended as
  \<^verbatim>\<open>%!(EXTRA int=..., int=...)\<close>.
\<close>

definition digit_char :: "nat \<Rightarrow> char" where
  "digit_char n = ''0123456789'' ! n"

fun digits :: "nat \<Rightarrow> string" where
  "digits n = (if n < 10 then [digit_char n] else digits (n div 10) @ [digit_char (n mod 10)])"

declare digits.simps [simp del]

definition Itoa :: "int \<Rightarrow> string" where
  "Itoa i = (if i < 0 then CHR ''-'' # digits (nat (- i)) else digits (nat i))"

fun extra_args :: "int list \<Rightarrow> string" where
  "extra_args [] = []"
| "extra_args [a] = ''int='' @ Itoa a"
| "extra_args (a # b # bs) = ''int='' @ Itoa a @ '', '' @ extra_args (b # bs)"

fun Sprintf :: "string \<Rightarrow> int list \<Rightarrow> string" where
  "Sprintf [] args = (if args = [] then [] else ''%!(EXTRA '' @ extra_args args @ '')'')"
| "Sprintf (c # cs) args =
     (if c = CHR ''%'' then
        (case cs of
           [] \<Rightarrow> ''%!(NOVERB)'' @ Sprintf [] args
         | v # cs' \<Rightarrow>
             if v = CHR ''d'' then
               (case args of
                  [] \<Rightarrow> ''%!d(MISSING)'' @ Sprintf cs' []
                | a # as \<Rightarrow> Itoa a @ Sprintf cs' as)
             else c # Sprintf cs args)
      else c # Sprintf cs args)"

text \<open>
  The receiving side: \<^verbatim>\<open>strconv.Atoi\<close> on a header value, and
  \<^verbatim>\<open>json.Decoder.Decode\<close> on a body. The decoder is modelled on the compact objects
  of two integer members that the templates produce. It reads one JSON value: what
  follows the closing brace is not looked at.
\<close>

definition is_digit :: "char \<Rightarrow> bool" where
  "is_digit c \<longleftrightarrow> c \<in> set ''0123456789''"

definition digit_val :: "char \<Rightarrow> nat" where
  "digit_val c = length (takeWhile (\<lambda>d. d \<noteq> c) ''0123456789'')"

fun read_nat :: "nat \<Rightarrow> string \<Rightarrow> nat \<times> string" where
  "read_nat n [] = (n, [])"
| "read_nat n (c # cs) =
     (if is_digit c then read_nat (10 * n + digit_val c) cs else (n, c # cs))"

definition read_unsigned :: "string \<Rightarrow> (int \<times> string) option" where
  "read_unsigned s =
     (case s of
        [] \<Rightarrow> None
      | c # cs \<Rightarrow> if is_digit c then (let (n, r) = read_nat 0 s in Some (int n, r)) else None)"

definition read_int :: "string \<Rightarrow> (int \<times> string) option" where
  "read_int s =
     (case s of
        [] \<Rightarrow> None
      | c # cs \<Rightarrow>
          if c = CHR ''-'' then
            (case read_unsigned cs of None \<Rightarrow> None | Some (n, r) \<Rightarrow> Some (- n, r))
          else read_unsigned s)"

definition Atoi :: "string \<Rightarrow> int option" where
  "Atoi s =
     (case (case s of
              [] \<Rightarrow> None
            | c # cs \<Rightarrow> if c = CHR ''+'' then read_unsigned cs else read_int s) of
        None \<Rightarrow> None
      | Some (n, r) \<Rightarrow> if r = [] then Some n else None)"

fun expect :: "string \<Rightarrow> string \<Rightarrow> string option" where
  "expect [] s = Some s"
| "expect (c # cs) [] = None"
| "expect (c # cs) (d # ds) = (if c = d then expect cs ds else None)"

definition decode_members :: "string \<Rightarrow> string \<Rightarrow> string \<Rightarrow> (int \<times> int) option" where
  \<open>decode_members k1 k2 s =
     (case expect (''{"'' @ k1 @ ''":'') s of
        None \<Rightarrow> None
      | Some r1 \<Rightarrow>
          (case read_int r1 of
             None \<Rightarrow> None
           | Some (a, r2) \<Rightarrow>
               (case expect ('',"'' @ k2 @ ''":'') r2 of
                  None \<Rightarrow> None
                | Some r3 \<Rightarrow>
                    (case read_int r3 of
                       None \<Rightarrow> None
                     | Some (b, r4) \<Rightarrow>
                         (case expect ''}'' r4 of
                            None \<Rightarrow> None
                          | Some r5 \<Rightarrow> Some (a, b))))))\<close>

definition decode_withdrawalRequestModel :: "string \<Rightarrow> withdrawalRequestModel option" where
  "decode_withdrawalRequestModel s =
     map_option (\<lambda>(a, b). \<lparr>wr_BookID = a, wr_WithDrawSum = b\<rparr>)
       (decode_members ''book_id'' ''withdrawal_sum'' s)"

definition decode_occupyRequestModel :: "string \<Rightarrow> occupyRequestModel option" where
  "decode_occupyRequestModel s =
     map_option (\<lambda>(a, b). \<lparr>or_BookID = a, or_EventID = b\<rparr>)
       (decode_members ''book_id'' ''event_id'' s)"

record request =
  req_method :: string
  req_url :: string
  req_headers :: "(string \<times> string) list"
  req_body :: string

text \<open>
  What \<^verbatim>\<open>http.Client.Do\<close> gives back: an error, or a response with its status code.
  The answers of the remote services are a parameter \<open>net\<close> of the orchestrator.
\<close>

datatype response = NoResponse | Response nat

type_synonym net = "request \<Rightarrow> response"

text \<open>\<^verbatim>\<open>Header.Get\<close>: the empty string for a header that is not set.\<close>

definition header_get :: "string \<Rightarrow> request \<Rightarrow> string" where
  "header_get k r = (case map_of (req_headers r) k of None \<Rightarrow> [] | Some v \<Rightarrow> v)"

text \<open>The path of an \<^verbatim>\<open>http://host:port/path\<close> address.\<close>

definition url_path :: "string \<Rightarrow> string" where
  "url_path u = dropWhile (\<lambda>c. c \<noteq> CHR ''/'') (drop 7 u)"

text \<open>
  The routes of the reservation pool that the saga uses, from its \<^verbatim>\<open>main\<close>:
  \<^verbatim>\<open>r.HandleFunc("/events/occupy", reqlog(isAuthenticatedMiddleware(occupy))).Methods("POST")\<close>
  and
  \<^verbatim>\<open>r.HandleFunc("/events/cancel", reqlog(isAuthenticatedMiddleware(cancelSlot))).Methods("POST")\<close>.
  The middleware answers 401 when the header \<^verbatim>\<open>X-User-Id\<close> is not set. The catalogue
  routes are not modelled: a request to any other route gives \<open>None\<close>. The request is
  served alone; \<open>cf\<close> says whether the count scan of \<^verbatim>\<open>occupy\<close> fails.
\<close>

definition events_serve ::
  "bool \<Rightarrow> request \<Rightarrow> pool \<Rightarrow> (nat \<times> occupiedResponseModel list \<times> pool) option" where
  "events_serve cf r p =
     (if url_path (req_url r) = ''/events/occupy'' \<and> req_method r = ''POST'' then
        (if map_of (req_headers r) ''X-User-Id'' = None then Some (401, [], p)
         else Some (occupy cf (Atoi (header_get ''X-User-Id'' r))
                      (decode_occupyRequestModel (req_body r)) p))
      else if url_path (req_url r) = ''/events/cancel'' \<and> req_method r = ''POST'' then
        (if map_of (req_headers r) ''X-User-Id'' = None then Some (401, [], p)
         else (case events_cancelSlot (decode_occupyRequestModel (req_body r)) p of
                 (c, p') \<Rightarrow> Some (c, [], p')))
      else None)"

section \<open>Booking orchestrator (book service in orders/app/main.go)\<close>

record bookModel =
  ID :: int
  UserID :: int
  EventID :: int
  Price :: int
  Status :: int


record callbackPaymentModel =
  cp_BookID :: int
  cp_Status :: bool

text \<open>The table \<^verbatim>\<open>book\<close> and the requests sent so far, oldest first.\<close>

record orders =
  books :: "bookModel list"
  sent :: "request list"

definition statusCreated :: int where "statusCreated = 0"
definition statusNeedToOccupy :: int where "statusNeedToOccupy = 1"
definition statusOccupied :: int where "statusOccupied = 2"
definition statusNeedToPay :: int where "statusNeedToPay = 3"
definition StatusPaid :: int where "StatusPaid = 4"
definition StatusNeetToNotify :: int where "StatusNeetToNotify = 5"
definition statusCompleted :: int where "statusCompleted = 6"
definition statusCancelled :: int where "statusCancelled = - 1"

definition occupySlotEndpoint :: string where
  "occupySlotEndpoint = ''http://events.saga.svc.cluster.local:9000/events/occupy''"

definition cancelSlotEndpoint :: string where
  "cancelSlotEndpoint = ''http://events.saga.svc.cluster.local:9000/events/cancel''"

definition paymentSlotEndpoint :: string where
  "paymentSlotEndpoint = ''http://account.saga.svc.cluster.local:9000/account/withdrawal''"

definition occupySlotTpl :: string where
  \<open>occupySlotTpl = ''{"book_id":%d,"event_id":%d}''\<close>

definition payTpl :: string where
  \<open>payTpl = ''{"book_id":%d,"withdrawal_sum":%d}''\<close>

text \<open>
  \<^verbatim>\<open>getBook\<close>, on \<^verbatim>\<open>getBookTpl\<close>:
  \<^verbatim>\<open>SELECT id, user_id, event_id, price, status FROM book WHERE id=$1\<close>.
\<close>

definition getBook :: "int \<Rightarrow> orders \<Rightarrow> err + bookModel" where
  "getBook bid st =
     (case find (\<lambda>b. ID b = bid) (books st) of
        None \<Rightarrow> Inl ErrNoRows
      | Some b \<Rightarrow> Inr b)"

text \<open>
  \<^verbatim>\<open>updateStatusTpl\<close>: \<^verbatim>\<open>UPDATE book SET status=$2 WHERE id=$1\<close>, the statement
  behind \<^verbatim>\<open>modifyBookStatus\<close> and \<^verbatim>\<open>cancelBook\<close>; \<^verbatim>\<open>setPriceTpl\<close>:
  \<^verbatim>\<open>UPDATE book SET price=$2 WHERE id=$1\<close>, behind \<^verbatim>\<open>setBookPrice\<close>.
\<close>

definition updateStatusTpl :: "int \<Rightarrow> int \<Rightarrow> bookModel list \<Rightarrow> bookModel list" where
  "updateStatusTpl bid s bs = map (\<lambda>b. if ID b = bid then b\<lparr>Status := s\<rparr> else b) bs"


definition modifyBookStatus :: "int \<Rightarrow> int \<Rightarrow> orders \<Rightarrow> err option \<times> orders" where
  "modifyBookStatus bid s st = (None, st\<lparr>books := updateStatusTpl bid s (books st)\<rparr>)"

definition cancelBook :: "int \<Rightarrow> orders \<Rightarrow> err option \<times> orders" where
  "cancelBook bid st = (None, st\<lparr>books := updateStatusTpl bid statusCancelled (books st)\<rparr>)"


text \<open>
  The three outgoing calls. Each records its request and turns the answer into the
  error it returns: the transport error, or the message for a status other than 200.
  (\<^verbatim>\<open>http.NewRequest\<close> does not fail on the constant methods and addresses used.)
\<close>

definition do_request :: "net \<Rightarrow> request \<Rightarrow> string \<Rightarrow> orders \<Rightarrow> err option \<times> orders" where
  "do_request net r msg st =
     (case net r of
        NoResponse \<Rightarrow> (Some ErrTransport, st\<lparr>sent := sent st @ [r]\<rparr>)
      | Response c \<Rightarrow>
          (if c \<noteq> 200 then Some (ErrMsg msg) else None, st\<lparr>sent := sent st @ [r]\<rparr>))"

definition occupySlot :: "net \<Rightarrow> int \<Rightarrow> int \<Rightarrow> int \<Rightarrow> orders \<Rightarrow> err option \<times> orders" where
  "occupySlot net bid eid uid st =
     do_request net
       \<lparr>req_method = ''POST'', req_url = occupySlotEndpoint,
        req_headers = [(''X-User-Id'', Itoa uid)],
        req_body = Sprintf occupySlotTpl [bid, eid]\<rparr>
       ''failed to occupy slot'' st"

definition payForBook :: "net \<Rightarrow> bookModel \<Rightarrow> orders \<Rightarrow> err option \<times> orders" where
  "payForBook net b st =
     do_request net
       \<lparr>req_method = ''PUT'', req_url = paymentSlotEndpoint,
        req_headers = [(''X-User-Id'', Itoa (UserID b))],
        req_body = Sprintf payTpl [ID b, UserID b, Price b]\<rparr>
       ''failed to pay for book'' st"

definition cancelSlot :: "net \<Rightarrow> bookModel \<Rightarrow> orders \<Rightarrow> err option \<times> orders" where
  "cancelSlot net b st =
     do_request net
       \<lparr>req_method = ''POST'', req_url = occupySlotEndpoint,
        req_headers = [(''X-User-Id'', Itoa (UserID b))],
        req_body = Sprintf occupySlotTpl [ID b, EventID b]\<rparr>
       ''failed to cancel slot'' st"

text \<open>
  \<^verbatim>\<open>actionBookStatus\<close>, the step function. It calls itself after it has written
  the next status; the status read then is neither Created nor Occupied, which bounds
  the recursion.
\<close>

lemma find_updateStatusTpl:
  "find (\<lambda>b. ID b = bid) (updateStatusTpl bid s bs) =
     map_option (\<lambda>b. b\<lparr>Status := s\<rparr>) (find (\<lambda>b. ID b = bid) bs)"
  by (induction bs) (auto simp: updateStatusTpl_def)

lemma getBook_modifyBookStatus:
  "getBook bid st = Inr b \<Longrightarrow>
     getBook bid (snd (modifyBookStatus bid s st)) = Inr (b\<lparr>Status := s\<rparr>)"
  by (simp add: getBook_def modifyBookStatus_def find_updateStatusTpl split: option.splits)

function actionBookStatus :: "net \<Rightarrow> int \<Rightarrow> orders \<Rightarrow> err option \<times> orders" where
  "actionBookStatus net bid st =
     (case getBook bid st of
        Inl e \<Rightarrow> (Some e, st)
      | Inr b \<Rightarrow>
          if Status b = statusCreated then
            (let st1 = snd (modifyBookStatus bid statusNeedToOccupy st);
                 (e, st2) = actionBookStatus net bid st1
             in if e \<noteq> None then cancelBook (ID b) st2 else (e, st2))
          else if Status b = statusCancelled then (None, st)
          else if Status b = statusNeedToOccupy then
            (let (e, st1) = occupySlot net (ID b) (EventID b) (UserID b) st
             in if e \<noteq> None then cancelBook (ID b) st1 else (e, st1))
          else if Status b = statusOccupied then
            (let st1 = snd (modifyBookStatus bid statusNeedToPay st);
                 (e, st2) = actionBookStatus net bid st1
             in if e \<noteq> None then cancelBook (ID b) st2 else (e, st2))
          else if Status b = statusNeedToPay then
            (let (e, st1) = payForBook net b st
             in if e \<noteq> None then
                  (let st2 = snd (cancelBook (ID b) st1)
                   in cancelSlot net b st2)
                else (e, st1))
          else if Status b = StatusPaid then (None, st)
          else (None, st))"
  by pat_completeness auto
termination
proof (relation "measure (\<lambda>(net, bid, st).
         case getBook bid st of
           Inl e \<Rightarrow> 0
         | Inr b \<Rightarrow> if Status b = statusCreated \<or> Status b = statusOccupied then 1 else 0)")
  show "wf (measure (\<lambda>(net, bid, st).
         case getBook bid st of
           Inl e \<Rightarrow> 0
         | Inr b \<Rightarrow> if Status b = statusCreated \<or> Status b = statusOccupied then 1 else (0::nat)))"
    by simp
next
  fix net :: net and bid st b st1
  assume "getBook bid st = Inr b" "Status b = statusCreated"
    "st1 = snd (modifyBookStatus bid statusNeedToOccupy st)"
  then show "((net, bid, st1), (net, bid, st)) \<in> measure (\<lambda>(net, bid, st).
         case getBook bid st of
           Inl e \<Rightarrow> 0
         | Inr b \<Rightarrow> if Status b = statusCreated \<or> Status b = statusOccupied then 1 else 0)"
    by (simp add: getBook_modifyBookStatus statusCreated_def statusNeedToOccupy_def statusOccupied_def)
next
  fix net :: net and bid st b st1
  assume "getBook bid st = Inr b" "Status b = statusOccupied"
    "st1 = snd (modifyBookStatus bid statusNeedToPay st)"
  then show "((net, bid, st1), (net, bid, st)) \<in> measure (\<lambda>(net, bid, st).
         case getBook bid st of
           Inl e \<Rightarrow> 0
         | Inr b \<Rightarrow> if Status b = statusCreated \<or> Status b = statusOccupied then 1 else 0)"
    by (simp add: getBook_modifyBookStatus statusCreated_def statusNeedToPay_def statusOccupied_def)
qed

declare actionBookStatus.simps [simp del]


definition callbackPayment :: "net \<Rightarrow> callbackPaymentModel option \<Rightarrow> orders \<Rightarrow> nat \<times> orders" where
  "callbackPayment net cb st =
     (case cb of
        None \<Rightarrow> (500, st)
      | Some c \<Rightarrow>
          if cp_Status c then
            (let st1 = snd (modifyBookStatus (cp_BookID c) StatusPaid st);
                 st2 = snd (actionBookStatus net (cp_BookID c) st1)
             in (200, st2))
          else (200, snd (cancelBook (cp_BookID c) st)))"

text \<open>The status of a booking, when the table has it.\<close>

definition book_status :: "int \<Rightarrow> orders \<Rightarrow> int option" where
  "book_status bid st = (case getBook bid st of Inl e \<Rightarrow> None | Inr b \<Rightarrow> Some (Status b))"




section \<open>Properties of the ledger\<close>


















text \<open>
  Claim C7. With the balance read succeeding, a withdrawal of more than the user's
  balance writes status 500, sends the callback with status false and leaves the table,
  hence every balance, unchanged; a withdrawal of at most the balance goes on to the
  conditional update with the negated amount, whose outcome decides the callback.
\<close>

theorem withdrawal_checks_balance:
  "(a > getBalanceTpl u tbl \<longrightarrow>
      withdrawal False rid (Some u) (Some \<lparr>wr_BookID = k, wr_WithDrawSum = a\<rparr>) tbl =
        (500, [\<lparr>wd_BookID = k, wd_UserID = u, wd_Price = a, wd_Status = False\<rparr>], tbl))
   \<and> (a \<le> getBalanceTpl u tbl \<longrightarrow>
      withdrawal False rid (Some u) (Some \<lparr>wr_BookID = k, wr_WithDrawSum = a\<rparr>) tbl =
        (case updatebalance u rid (- a) tbl of
           (Some e, tbl') \<Rightarrow>
             (500, [\<lparr>wd_BookID = k, wd_UserID = u, wd_Price = a, wd_Status = False\<rparr>], tbl')
         | (None, tbl') \<Rightarrow>
             (200, [\<lparr>wd_BookID = k, wd_UserID = u, wd_Price = a, wd_Status = True\<rparr>], tbl')))"
  by (simp add: withdrawal_def getbalance_def split: prod.splits option.splits)

theorem withdrawal_checks_balance_witness:
  "(30::int) > getBalanceTpl 1 [\<lparr>user_id = 1, request_id = ''r0'', delta = 20, status = 1\<rparr>,
                          \<lparr>user_id = 1, request_id = ''r1'', delta = 0, status = 0\<rparr>]
   \<and> withdrawal False ''r1'' (Some 1) (Some \<lparr>wr_BookID = 5, wr_WithDrawSum = 30\<rparr>)
        [\<lparr>user_id = 1, request_id = ''r0'', delta = 20, status = 1\<rparr>,
         \<lparr>user_id = 1, request_id = ''r1'', delta = 0, status = 0\<rparr>] =
        (500, [\<lparr>wd_BookID = 5, wd_UserID = 1, wd_Price = 30, wd_Status = False\<rparr>],
         [\<lparr>user_id = 1, request_id = ''r0'', delta = 20, status = 1\<rparr>,
          \<lparr>user_id = 1, request_id = ''r1'', delta = 0, status = 0\<rparr>])
   \<and> (20::int) \<le> getBalanceTpl 1 [\<lparr>user_id = 1, request_id = ''r0'', delta = 20, status = 1\<rparr>,
                          \<lparr>user_id = 1, request_id = ''r1'', delta = 0, status = 0\<rparr>]
   \<and> withdrawal False ''r1'' (Some 1) (Some \<lparr>wr_BookID = 5, wr_WithDrawSum = 20\<rparr>)
        [\<lparr>user_id = 1, request_id = ''r0'', delta = 20, status = 1\<rparr>,
         \<lparr>user_id = 1, request_id = ''r1'', delta = 0, status = 0\<rparr>] =
        (200, [\<lparr>wd_BookID = 5, wd_UserID = 1, wd_Price = 20, wd_Status = True\<rparr>],
         [\<lparr>user_id = 1, request_id = ''r0'', delta = 20, status = 1\<rparr>,
          \<lparr>user_id = 1, request_id = ''r1'', delta = - 20, status = 1\<rparr>])"
  using withdrawal_checks_balance [where a = 30 and u = 1 and rid = "''r1''" and k = 5 and tbl =
      "[\<lparr>user_id = 1, request_id = ''r0'', delta = 20, status = 1\<rparr>,
        \<lparr>user_id = 1, request_id = ''r1'', delta = 0, status = 0\<rparr>]"]
    withdrawal_checks_balance [where a = 20 and u = 1 and rid = "''r1''" and k = 5 and tbl =
      "[\<lparr>user_id = 1, request_id = ''r0'', delta = 20, status = 1\<rparr>,
        \<lparr>user_id = 1, request_id = ''r1'', delta = 0, status = 0\<rparr>]"]
  by (simp add: getBalanceTpl_def updatebalance_def updateBalanceTpl_def pending_def)


text \<open>
  Claim C10. When the balance read fails, the handler does not return: it goes on with
  balance 0. A strictly positive amount then exceeds that balance, so the callback
  carries status false and the table is unchanged; an amount of at most 0 still reaches
  the conditional update (the status code stays the 500 written after the failed read).
\<close>

theorem withdrawal_balance_read_fails:
  "getbalance True u tbl = (0, Some ErrStorage)
   \<and> (0 < a \<longrightarrow>
        withdrawal True rid (Some u) (Some \<lparr>wr_BookID = k, wr_WithDrawSum = a\<rparr>) tbl =
          (500, [\<lparr>wd_BookID = k, wd_UserID = u, wd_Price = a, wd_Status = False\<rparr>], tbl))
   \<and> (a \<le> 0 \<longrightarrow>
        withdrawal True rid (Some u) (Some \<lparr>wr_BookID = k, wr_WithDrawSum = a\<rparr>) tbl =
          (case updatebalance u rid (- a) tbl of
             (Some e, tbl') \<Rightarrow>
               (500, [\<lparr>wd_BookID = k, wd_UserID = u, wd_Price = a, wd_Status = False\<rparr>], tbl')
           | (None, tbl') \<Rightarrow>
               (500, [\<lparr>wd_BookID = k, wd_UserID = u, wd_Price = a, wd_Status = True\<rparr>], tbl')))"
  by (simp add: withdrawal_def getbalance_def split: prod.splits option.splits)

theorem withdrawal_balance_read_fails_witness:
  "(0::int) < 20
   \<and> withdrawal True ''r1'' (Some 1) (Some \<lparr>wr_BookID = 5, wr_WithDrawSum = 20\<rparr>)
        [\<lparr>user_id = 1, request_id = ''r0'', delta = 20, status = 1\<rparr>,
         \<lparr>user_id = 1, request_id = ''r1'', delta = 0, status = 0\<rparr>] =
        (500, [\<lparr>wd_BookID = 5, wd_UserID = 1, wd_Price = 20, wd_Status = False\<rparr>],
         [\<lparr>user_id = 1, request_id = ''r0'', delta = 20, status = 1\<rparr>,
          \<lparr>user_id = 1, request_id = ''r1'', delta = 0, status = 0\<rparr>])
   \<and> (0::int) \<le> 0
   \<and> withdrawal True ''r1'' (Some 1) (Some \<lparr>wr_BookID = 5, wr_WithDrawSum = 0\<rparr>)
        [\<lparr>user_id = 1, request_id = ''r1'', delta = 0, status = 0\<rparr>] =
        (500, [\<lparr>wd_BookID = 5, wd_UserID = 1, wd_Price = 0, wd_Status = True\<rparr>],
         [\<lparr>user_id = 1, request_id = ''r1'', delta = 0, status = 1\<rparr>])"
  using withdrawal_balance_read_fails [where a = 20 and u = 1 and rid = "''r1''" and k = 5 and tbl =
      "[\<lparr>user_id = 1, request_id = ''r0'', delta = 20, status = 1\<rparr>,
        \<lparr>user_id = 1, request_id = ''r1'', delta = 0, status = 0\<rparr>]"]
    withdrawal_balance_read_fails [where a = 0 and u = 1 and rid = "''r1''" and k = 5 and tbl =
      "[\<lparr>user_id = 1, request_id = ''r1'', delta = 0, status = 0\<rparr>]"]
  by (simp add: updatebalance_def updateBalanceTpl_def pending_def)


text \<open>
  Claim C8 as stated fails: the insert has no conflict clause, so a second
  \<^verbatim>\<open>newReq\<close> with the same token is either rejected by the unique pair, and the
  caller gets status 500, or it adds a second Pending entry.
\<close>

theorem reserve_twice_counterexample:
  "\<not> (fst (newReq True (Some 1) ''r1'' (snd (newReq True (Some 1) ''r1'' []))) = 200
       \<and> length (pending_of 1 ''r1''
            (snd (newReq True (Some 1) ''r1'' (snd (newReq True (Some 1) ''r1'' []))))) = 1)
   \<and> \<not> (fst (newReq False (Some 1) ''r1'' (snd (newReq False (Some 1) ''r1'' []))) = 200
       \<and> length (pending_of 1 ''r1''
            (snd (newReq False (Some 1) ''r1'' (snd (newReq False (Some 1) ''r1'' []))))) = 1)"
  by (simp add: newReq_def prepareOperationTpl_def pending_of_def entries_of_def)


text \<open>
  Claim C8, amended. For a token the user has no entry for yet, the first \<^verbatim>\<open>newReq\<close>
  answers 200 and adds the Pending entry with delta 0, the only Pending entry of the
  pair. A second \<^verbatim>\<open>newReq\<close> with the same token is not silent: where the table
  keeps the pair unique the insert is rejected, the table is unchanged and the caller
  gets status 500; where it does not, a second Pending entry is added and the caller
  gets 200.
\<close>

theorem reserve_twice:
  assumes fresh: "entries_of u t tbl = []"
  shows "newReq uniq (Some u) t tbl =
           (200, tbl @ [\<lparr>user_id = u, request_id = t, delta = 0, status = 0\<rparr>])
       \<and> pending_of u t (tbl @ [\<lparr>user_id = u, request_id = t, delta = 0, status = 0\<rparr>]) =
           [\<lparr>user_id = u, request_id = t, delta = 0, status = 0\<rparr>]
       \<and> newReq True (Some u) t (tbl @ [\<lparr>user_id = u, request_id = t, delta = 0, status = 0\<rparr>]) =
           (500, tbl @ [\<lparr>user_id = u, request_id = t, delta = 0, status = 0\<rparr>])
       \<and> newReq False (Some u) t (tbl @ [\<lparr>user_id = u, request_id = t, delta = 0, status = 0\<rparr>]) =
           (200, tbl @ [\<lparr>user_id = u, request_id = t, delta = 0, status = 0\<rparr>,
                        \<lparr>user_id = u, request_id = t, delta = 0, status = 0\<rparr>])"
proof -
  have no: "\<not> (\<exists>e \<in> set tbl. user_id e = u \<and> request_id e = t)"
    using fresh by (auto simp: entries_of_def filter_empty_conv)
  show ?thesis
    using no fresh by (simp add: newReq_def prepareOperationTpl_def pending_of_def entries_of_def)
qed

theorem reserve_twice_witness:
  "entries_of 1 ''r1'' [] = []
   \<and> newReq True (Some 1) ''r1'' [] =
           (200, [\<lparr>user_id = 1, request_id = ''r1'', delta = 0, status = 0\<rparr>])
   \<and> newReq True (Some 1) ''r1'' [\<lparr>user_id = 1, request_id = ''r1'', delta = 0, status = 0\<rparr>] =
           (500, [\<lparr>user_id = 1, request_id = ''r1'', delta = 0, status = 0\<rparr>])"
  using reserve_twice [where u = 1 and t = "''r1''" and tbl = "[]" and uniq = True]
  by (simp add: entries_of_def)

section \<open>Properties of the reservation pool\<close>

text \<open>
  No step of the server touches the catalogue. Served alone and with its count read
  succeeding, \<^verbatim>\<open>occupy\<close> keeps an event within its capacity, as \<^verbatim>\<open>cancelSlot\<close>
  always does.
\<close>

lemma getTotalSlots_slots [simp]: "getTotalSlots e (p\<lparr>slots := ss\<rparr>) = getTotalSlots e p"
  by (simp add: getTotalSlots_def getEvent_def)


lemma occupy_insert_events: "events (snd (snd (occupy_insert l p))) = events p"
  by (simp add: occupy_insert_def events_occupySlot_def)

lemma occupy_events: "events (snd (snd (occupy cf uidh body p))) = events p"
  by (simp add: occupy_def occupy_insert_events split: sum.splits prod.splits)
















text \<open>
  Claim C9. \<^verbatim>\<open>cancelSlot\<close> of the reservation pool deletes by booking id alone: it
  answers 200, afterwards no record carries the booking id, whatever its event, every
  other record and the catalogue are as before, the event id of the payload does not
  matter, and when no record carries the booking id nothing changes.
\<close>

theorem cancel_keyed_on_booking:
  "fst (events_cancelSlot (Some rq) p) = 200
   \<and> filter (\<lambda>s. book_id s = or_BookID rq) (slots (snd (events_cancelSlot (Some rq) p))) = []
   \<and> filter (\<lambda>s. book_id s \<noteq> or_BookID rq) (slots (snd (events_cancelSlot (Some rq) p))) =
       filter (\<lambda>s. book_id s \<noteq> or_BookID rq) (slots p)
   \<and> events (snd (events_cancelSlot (Some rq) p)) = events p
   \<and> events_cancelSlot (Some (rq\<lparr>or_EventID := e'\<rparr>)) p = events_cancelSlot (Some rq) p
   \<and> (filter (\<lambda>s. book_id s = or_BookID rq) (slots p) = [] \<longrightarrow>
        events_cancelSlot (Some rq) p = (200, p))"
proof -
  have keep: "filter (\<lambda>s. book_id s = b) ss = [] \<Longrightarrow> filter (\<lambda>s. book_id s \<noteq> b) ss = ss" for b ss
    by (induction ss) (auto split: if_splits)
  have gone: "filter (\<lambda>s. book_id s = b) (filter (\<lambda>s. book_id s \<noteq> b) ss) = []" for b ss
    by (induction ss) auto
  show ?thesis
    by (simp add: events_cancelSlot_def gone keep)
qed



theorem cancel_keyed_on_booking_witness:
  "events_cancelSlot (Some \<lparr>or_BookID = 1, or_EventID = 99\<rparr>)
     \<lparr>events = [], slots = [\<lparr>event_id = 10, book_id = 1\<rparr>, \<lparr>event_id = 11, book_id = 1\<rparr>,
                            \<lparr>event_id = 10, book_id = 2\<rparr>]\<rparr> =
     (200, \<lparr>events = [], slots = [\<lparr>event_id = 10, book_id = 2\<rparr>]\<rparr>)
   \<and> filter (\<lambda>s. book_id s = or_BookID \<lparr>or_BookID = 3, or_EventID = 10\<rparr>)
        (slots \<lparr>events = [], slots = [\<lparr>event_id = 10, book_id = 2\<rparr>]\<rparr>) = []
   \<and> events_cancelSlot (Some \<lparr>or_BookID = 3, or_EventID = 10\<rparr>)
        \<lparr>events = [], slots = [\<lparr>event_id = 10, book_id = 2\<rparr>]\<rparr> =
        (200, \<lparr>events = [], slots = [\<lparr>event_id = 10, book_id = 2\<rparr>]\<rparr>)"
  using cancel_keyed_on_booking [where rq = "\<lparr>or_BookID = 3, or_EventID = 10\<rparr>"
      and p = "\<lparr>events = [], slots = [\<lparr>event_id = 10, book_id = 2\<rparr>]\<rparr>"]
  by (simp add: events_cancelSlot_def)

section \<open>Properties of the orchestrator\<close>

text \<open>
  The statements on table \<^verbatim>\<open>book\<close> touch the rows of one booking id only, and the
  outgoing calls touch no row at all.
\<close>

lemma updateStatusTpl_twice [simp]:
  "updateStatusTpl bid s2 (updateStatusTpl bid s1 bs) = updateStatusTpl bid s2 bs"
  by (induction bs) (auto simp: updateStatusTpl_def)



lemma books_do_request [simp]: "books (snd (do_request net r msg st)) = books st"
  by (simp add: do_request_def split: response.splits)

lemma sent_do_request [simp]: "sent (snd (do_request net r msg st)) = sent st @ [r]"
  by (simp add: do_request_def split: response.splits)

lemma books_cancelBook [simp]:
  "books (snd (cancelBook bid st)) = updateStatusTpl bid statusCancelled (books st)"
  by (simp add: cancelBook_def)

lemma books_modifyBookStatus [simp]:
  "books (snd (modifyBookStatus bid s st)) = updateStatusTpl bid s (books st)"
  by (simp add: modifyBookStatus_def)

lemma book_status_books:
  "books st' = updateStatusTpl bid s (books st) \<Longrightarrow> getBook bid st = Inr b \<Longrightarrow>
     book_status bid st' = Some s"
  by (simp add: book_status_def getBook_def find_updateStatusTpl split: option.splits)



lemma step_missing:
  "getBook bid st = Inl e \<Longrightarrow> actionBookStatus net bid st = (Some e, st)"
  by (subst actionBookStatus.simps) simp


lemma step_paid:
  "getBook bid st = Inr b \<Longrightarrow> Status b = StatusPaid \<Longrightarrow>
     actionBookStatus net bid st = (None, st)"
  by (subst actionBookStatus.simps)
     (simp add: StatusPaid_def statusCancelled_def statusCreated_def statusNeedToOccupy_def
        statusOccupied_def statusNeedToPay_def)
















lemma getBook_cancelBook:
  "getBook bid st = Inr b \<Longrightarrow>
     getBook bid (snd (cancelBook bid st)) = Inr (b\<lparr>Status := statusCancelled\<rparr>)"
  by (simp add: getBook_def cancelBook_def find_updateStatusTpl split: option.splits)

lemma getBook_modifyBookStatus_missing:
  "getBook bid st = Inl e \<Longrightarrow> getBook bid (snd (modifyBookStatus bid s st)) = Inl e"
  by (simp add: getBook_def modifyBookStatus_def find_updateStatusTpl split: option.splits)

lemma callbackPayment_success:
  "callbackPayment net (Some \<lparr>cp_BookID = bid, cp_Status = True\<rparr>) st =
     (200, snd (modifyBookStatus bid StatusPaid st))"
proof (cases "getBook bid st")
  case (Inl e)
  then have "getBook bid (snd (modifyBookStatus bid StatusPaid st)) = Inl e"
    by (rule getBook_modifyBookStatus_missing)
  then have "actionBookStatus net bid (snd (modifyBookStatus bid StatusPaid st)) =
      (Some e, snd (modifyBookStatus bid StatusPaid st))"
    by (rule step_missing)
  then show ?thesis by (simp add: callbackPayment_def)
next
  case (Inr b)
  then have "getBook bid (snd (modifyBookStatus bid StatusPaid st)) = Inr (b\<lparr>Status := StatusPaid\<rparr>)"
    by (rule getBook_modifyBookStatus)
  then have "actionBookStatus net bid (snd (modifyBookStatus bid StatusPaid st)) =
      (None, snd (modifyBookStatus bid StatusPaid st))"
    by (rule step_paid) simp
  then show ?thesis by (simp add: callbackPayment_def)
qed



text \<open>
  The requests of the payment step and of the compensation, for any booking: the
  payment template has two verbs and is given three arguments, and the compensation
  addresses the occupy endpoint, whose handler never removes a record.
\<close>

lemma payForBook_request:
  \<open>sent (snd (payForBook net b st)) = sent st @
     [\<lparr>req_method = ''PUT'', req_url = paymentSlotEndpoint,
       req_headers = [(''X-User-Id'', Itoa (UserID b))],
       req_body = ''{"book_id":'' @ Itoa (ID b) @ '',"withdrawal_sum":'' @ Itoa (UserID b)
                  @ ''}%!(EXTRA int='' @ Itoa (Price b) @ '')''\<rparr>]\<close>
  by (simp add: payForBook_def payTpl_def)

lemma cancelSlot_request:
  \<open>sent (snd (cancelSlot net b st)) = sent st @
     [\<lparr>req_method = ''POST'', req_url = occupySlotEndpoint,
       req_headers = [(''X-User-Id'', Itoa (UserID b))],
       req_body = ''{"book_id":'' @ Itoa (ID b) @ '',"event_id":'' @ Itoa (EventID b) @ ''}''\<rparr>]\<close>
  by (simp add: cancelSlot_def occupySlotTpl_def)

lemma occupy_keeps_slots:
  "set (slots p) \<subseteq> set (slots (snd (snd (occupy cf uidh rqo p))))"
  by (auto simp: occupy_def occupy_insert_def events_occupySlot_def split: sum.splits prod.splits)

lemma occupy_route_keeps_slots:
  assumes "req_url r = occupySlotEndpoint"
    and "events_serve cf r p = Some (c, cbs, p')"
  shows "set (slots p) \<subseteq> set (slots p')"
proof -
  have path: "url_path occupySlotEndpoint = ''/events/occupy''"
    by code_simp
  have "p' = p \<or> p' = snd (snd (occupy cf (Atoi (header_get ''X-User-Id'' r))
                      (decode_occupyRequestModel (req_body r)) p))"
    using assms by (auto simp: events_serve_def path split: if_splits)
  then show ?thesis
  proof
    assume "p' = p"
    then show ?thesis by simp
  next
    assume "p' = snd (snd (occupy cf (Atoi (header_get ''X-User-Id'' r))
                      (decode_occupyRequestModel (req_body r)) p))"
    then show ?thesis by (simp only: occupy_keeps_slots)
  qed
qed


text \<open>
  Claim C1 on the code. The booking 1 of user 7 holds the only slot of event 10 and is in
  NeedToPay; the payment request fails. The step function sets the booking to Cancelled,
  and then \<^verbatim>\<open>cancelSlot\<close> posts the occupy payload to the occupy endpoint. The
  reservation pool serves that request with \<^verbatim>\<open>occupy\<close>: the record of booking 1
  stays (the event is full, the callback carries status false), and with a second slot
  free, or with the count scan failing, the booking gets a second record. When the
  failure arrives by the payment
  callback instead, \<^verbatim>\<open>callbackPayment\<close> cancels the booking and sends no request.
  In no case is the occupancy record of the booking deleted.
\<close>

theorem payment_failure_keeps_slot:
  \<open>actionBookStatus (\<lambda>r. if req_url r = paymentSlotEndpoint then NoResponse else Response 200) 1
       \<lparr>books = [\<lparr>ID = 1, UserID = 7, EventID = 10, Price = 20, Status = statusNeedToPay\<rparr>],
        sent = []\<rparr> =
     (None,
      \<lparr>books = [\<lparr>ID = 1, UserID = 7, EventID = 10, Price = 20, Status = statusCancelled\<rparr>],
       sent = [\<lparr>req_method = ''PUT'', req_url = paymentSlotEndpoint,
                req_headers = [(''X-User-Id'', ''7'')],
                req_body = ''{"book_id":1,"withdrawal_sum":7}%!(EXTRA int=20)''\<rparr>,
               \<lparr>req_method = ''POST'', req_url = occupySlotEndpoint,
                req_headers = [(''X-User-Id'', ''7'')],
                req_body = ''{"book_id":1,"event_id":10}''\<rparr>]\<rparr>)
   \<and> events_serve False
        \<lparr>req_method = ''POST'', req_url = occupySlotEndpoint,
         req_headers = [(''X-User-Id'', ''7'')],
         req_body = ''{"book_id":1,"event_id":10}''\<rparr>
        \<lparr>events = [\<lparr>ev_ID = 10, ev_Name = ''show'', ev_Price = 20, ev_TotalSlots = 1\<rparr>],
         slots = [\<lparr>event_id = 10, book_id = 1\<rparr>]\<rparr> =
       Some (200, [\<lparr>oc_BookID = 1, oc_UserID = 7, oc_Price = 20, oc_Status = False\<rparr>],
             \<lparr>events = [\<lparr>ev_ID = 10, ev_Name = ''show'', ev_Price = 20, ev_TotalSlots = 1\<rparr>],
              slots = [\<lparr>event_id = 10, book_id = 1\<rparr>]\<rparr>)
   \<and> events_serve False
        \<lparr>req_method = ''POST'', req_url = occupySlotEndpoint,
         req_headers = [(''X-User-Id'', ''7'')],
         req_body = ''{"book_id":1,"event_id":10}''\<rparr>
        \<lparr>events = [\<lparr>ev_ID = 10, ev_Name = ''show'', ev_Price = 20, ev_TotalSlots = 2\<rparr>],
         slots = [\<lparr>event_id = 10, book_id = 1\<rparr>]\<rparr> =
       Some (200, [\<lparr>oc_BookID = 1, oc_UserID = 7, oc_Price = 20, oc_Status = True\<rparr>],
             \<lparr>events = [\<lparr>ev_ID = 10, ev_Name = ''show'', ev_Price = 20, ev_TotalSlots = 2\<rparr>],
              slots = [\<lparr>event_id = 10, book_id = 1\<rparr>, \<lparr>event_id = 10, book_id = 1\<rparr>]\<rparr>)
   \<and> events_serve True
        \<lparr>req_method = ''POST'', req_url = occupySlotEndpoint,
         req_headers = [(''X-User-Id'', ''7'')],
         req_body = ''{"book_id":1,"event_id":10}''\<rparr>
        \<lparr>events = [\<lparr>ev_ID = 10, ev_Name = ''show'', ev_Price = 20, ev_TotalSlots = 1\<rparr>],
         slots = [\<lparr>event_id = 10, book_id = 1\<rparr>]\<rparr> =
       Some (200, [\<lparr>oc_BookID = 1, oc_UserID = 7, oc_Price = 20, oc_Status = True\<rparr>],
             \<lparr>events = [\<lparr>ev_ID = 10, ev_Name = ''show'', ev_Price = 20, ev_TotalSlots = 1\<rparr>],
              slots = [\<lparr>event_id = 10, book_id = 1\<rparr>, \<lparr>event_id = 10, book_id = 1\<rparr>]\<rparr>)
   \<and> callbackPayment (\<lambda>r. Response 200) (Some \<lparr>cp_BookID = 1, cp_Status = False\<rparr>)
        \<lparr>books = [\<lparr>ID = 1, UserID = 7, EventID = 10, Price = 20, Status = statusNeedToPay\<rparr>],
         sent = []\<rparr> =
       (200,
        \<lparr>books = [\<lparr>ID = 1, UserID = 7, EventID = 10, Price = 20, Status = statusCancelled\<rparr>],
         sent = []\<rparr>)\<close>
  by code_simp





text \<open>
  Claim C4 on the code. For booking 1 of user 7 with price 20 in NeedToPay, the step
  function sends one request: to the ledger's withdrawal address, with the owning user 7
  in the header \<^verbatim>\<open>X-User-Id\<close>, and with a body whose member \<^verbatim>\<open>withdrawal_sum\<close>
  holds 7, the user id; the price 20 lands behind the closing brace, where the decoder
  of the ledger does not read.
\<close>

theorem payment_request_carries_user_id:
  \<open>sent (snd (actionBookStatus (\<lambda>r. Response 200) 1
       \<lparr>books = [\<lparr>ID = 1, UserID = 7, EventID = 10, Price = 20, Status = statusNeedToPay\<rparr>],
        sent = []\<rparr>)) =
     [\<lparr>req_method = ''PUT'', req_url = paymentSlotEndpoint,
       req_headers = [(''X-User-Id'', ''7'')],
       req_body = ''{"book_id":1,"withdrawal_sum":7}%!(EXTRA int=20)''\<rparr>]
   \<and> decode_withdrawalRequestModel ''{"book_id":1,"withdrawal_sum":7}%!(EXTRA int=20)'' =
       Some \<lparr>wr_BookID = 1, wr_WithDrawSum = 7\<rparr>\<close>
  by code_simp


text \<open>
  Claim C5 as stated fails: after the successful payment callback the booking is not
  Completed.
\<close>

theorem payment_success_counterexample:
  "book_status 1 (snd (callbackPayment (\<lambda>r. Response 200) (Some \<lparr>cp_BookID = 1, cp_Status = True\<rparr>)
       \<lparr>books = [\<lparr>ID = 1, UserID = 7, EventID = 10, Price = 20, Status = statusNeedToPay\<rparr>],
        sent = []\<rparr>)) \<noteq> Some statusCompleted"
  by code_simp


text \<open>
  Claim C5, amended. On a payment callback with success true the orchestrator sets the
  status of the booking to Paid; the step function it then runs reads Paid and changes
  nothing. The booking ends in Paid, which is not Completed, and no request (hence no
  notification) is sent.
\<close>

theorem payment_success_ends_paid:
  assumes "book_status bid st = Some s"
  shows "callbackPayment net (Some \<lparr>cp_BookID = bid, cp_Status = True\<rparr>) st =
           (200, st\<lparr>books := updateStatusTpl bid StatusPaid (books st)\<rparr>)
       \<and> book_status bid
           (snd (callbackPayment net (Some \<lparr>cp_BookID = bid, cp_Status = True\<rparr>) st)) =
           Some StatusPaid
       \<and> sent (snd (callbackPayment net (Some \<lparr>cp_BookID = bid, cp_Status = True\<rparr>) st)) = sent st
       \<and> StatusPaid \<noteq> statusCompleted"
proof -
  obtain b where g: "getBook bid st = Inr b"
    using assms by (auto simp: book_status_def split: sum.splits)
  have eq: "callbackPayment net (Some \<lparr>cp_BookID = bid, cp_Status = True\<rparr>) st =
      (200, st\<lparr>books := updateStatusTpl bid StatusPaid (books st)\<rparr>)"
    by (simp add: callbackPayment_success modifyBookStatus_def)
  have "book_status bid (st\<lparr>books := updateStatusTpl bid StatusPaid (books st)\<rparr>) = Some StatusPaid"
    by (rule book_status_books [OF _ g]) simp
  then show ?thesis
    by (simp add: eq StatusPaid_def statusCompleted_def)
qed


theorem payment_success_ends_paid_witness:
  "book_status 1
     \<lparr>books = [\<lparr>ID = 1, UserID = 7, EventID = 10, Price = 20, Status = statusNeedToPay\<rparr>],
      sent = []\<rparr> = Some statusNeedToPay
   \<and> callbackPayment (\<lambda>r. Response 200) (Some \<lparr>cp_BookID = 1, cp_Status = True\<rparr>)
       \<lparr>books = [\<lparr>ID = 1, UserID = 7, EventID = 10, Price = 20, Status = statusNeedToPay\<rparr>],
        sent = []\<rparr> =
       (200, \<lparr>books = [\<lparr>ID = 1, UserID = 7, EventID = 10, Price = 20, Status = StatusPaid\<rparr>],
              sent = []\<rparr>)"
proof -
  have h: "book_status 1
     \<lparr>books = [\<lparr>ID = 1, UserID = 7, EventID = 10, Price = 20, Status = statusNeedToPay\<rparr>],
      sent = []\<rparr> = Some statusNeedToPay"
    by code_simp
  from payment_success_ends_paid [OF h, where net = "\<lambda>r. Response 200"]
  have "callbackPayment (\<lambda>r. Response 200) (Some \<lparr>cp_BookID = 1, cp_Status = True\<rparr>)
       \<lparr>books = [\<lparr>ID = 1, UserID = 7, EventID = 10, Price = 20, Status = statusNeedToPay\<rparr>],
        sent = []\<rparr> =
       (200, \<lparr>books = [\<lparr>ID = 1, UserID = 7, EventID = 10, Price = 20, Status = StatusPaid\<rparr>],
              sent = []\<rparr>)"
    by (simp add: updateStatusTpl_def)
  with h show ?thesis by blast
qed


end
